theory Spec2Isabelle
  imports Main "HOL-Library.Multiset"
begin

section \<open>Signature collection: \<open>getSignatures\<close> (packages/plugins/test/helpers.ts)\<close>

text \<open>
  Private keys, Merkle roots and signatures are strings in the source. Two collaborators
  are outside the repository and are parameters of the model: the address derived from a
  private key (\<open>BigInt(new ethers.Wallet(k).address)\<close>, a natural number) and the
  signing primitive \<open>signAuthRootMetaTxn\<close>.
\<close>

type_synonym private_key = string
type_synonym merkle_root = string
type_synonym signature = string

text \<open>The comparator handed to \<open>Array.prototype.sort\<close> (helpers.ts, lines 344-354).\<close>

definition compareAddresses :: "(private_key \<Rightarrow> nat) \<Rightarrow> private_key \<Rightarrow> private_key \<Rightarrow> int" where
  "compareAddresses address a b =
     (if address a < address b then - 1
      else if address a > address b then 1
      else 0)"

text \<open>
  \<open>Array.prototype.sort\<close> is a stable sort driven by the comparator: an element is placed
  before the first element it does not compare greater than, so elements that compare
  equal keep their input order.
\<close>

fun insertBy :: "('a \<Rightarrow> 'a \<Rightarrow> int) \<Rightarrow> 'a \<Rightarrow> 'a list \<Rightarrow> 'a list" where
  "insertBy cmp x [] = [x]"
| "insertBy cmp x (y # ys) = (if cmp x y \<le> 0 then x # y # ys else y # insertBy cmp x ys)"

fun sortBy :: "('a \<Rightarrow> 'a \<Rightarrow> int) \<Rightarrow> 'a list \<Rightarrow> 'a list" where
  "sortBy cmp [] = []"
| "sortBy cmp (x # xs) = insertBy cmp x (sortBy cmp xs)"

text \<open>
  The signing loop (lines 356-365): sign with the next key, push the signature, and leave
  the loop when the number of signatures collected equals the threshold. The test is made
  after the push, and it is an equality.
\<close>

fun collectSignatures ::
  "(private_key \<Rightarrow> merkle_root \<Rightarrow> signature) \<Rightarrow> merkle_root \<Rightarrow> int \<Rightarrow>
   signature list \<Rightarrow> private_key list \<Rightarrow> signature list" where
  "collectSignatures sign root threshold signatures [] = signatures"
| "collectSignatures sign root threshold signatures (ownerPrivateKey # rest) =
     (let signatures' = signatures @ [sign ownerPrivateKey root]
      in if int (length signatures') = threshold then signatures'
         else collectSignatures sign root threshold signatures' rest)"

definition getSignatures ::
  "(private_key \<Rightarrow> nat) \<Rightarrow> (private_key \<Rightarrow> merkle_root \<Rightarrow> signature) \<Rightarrow>
   private_key list \<Rightarrow> merkle_root \<Rightarrow> int \<Rightarrow> signature list" where
  "getSignatures address sign ownerPrivateKeys root threshold =
     (let sortedOwnerPrivateKeys = sortBy (compareAddresses address) ownerPrivateKeys
      in collectSignatures sign root threshold [] sortedOwnerPrivateKeys)"

text \<open>
  The signers whose signatures are returned: the first \<open>threshold\<close> keys of the sorted
  list when the threshold is positive and reached, every key otherwise.
\<close>

definition signersUsed :: "int \<Rightarrow> private_key list \<Rightarrow> private_key list" where
  "signersUsed threshold sortedKeys =
     (if 1 \<le> threshold \<and> threshold \<le> int (length sortedKeys)
      then take (nat threshold) sortedKeys else sortedKeys)"

section \<open>Proposals: \<open>propose\<close> and its helpers (plugins CLI, propose module)\<close>

subsection \<open>Data\<close>

text \<open>
  Values produced and consumed only by collaborators outside the repository are kept
  opaque, as strings: the ABI-encoded deployment info written by the Forge script, raw and
  parsed action inputs, the compiled artifacts, gas estimates and the preview.
\<close>

type_synonym deployment_info = string
type_synonym raw_action_input = string
type_synonym action_input = string
type_synonym config_artifacts = string
type_synonym gas_estimate = string
type_synonym preview = string

text \<open>
  The fields of \<open>newConfig\<close>, \<open>initialState\<close> and \<open>ParsedConfig\<close> that the source reads.
  Chain identifiers and the threshold are natural numbers: the conversions \<open>Number(...)\<close>
  and \<open>BigInt(...)\<close> of the source are exact on them (identifiers below \<open>2^53\<close>).
\<close>

record new_config =
  orgId :: string
  projectName :: string
  owners :: "string list"
  threshold :: nat
  saltNonce :: string

record initial_state =
  isExecuting :: bool

record parsed_config =
  chainId :: nat
  newConfig :: new_config
  safeAddress :: string
  moduleAddress :: string
  safeInitData :: string
  actionInputs :: "action_input list"
  initialState :: initial_state

text \<open>
  Modelled from the spec: the enumeration \<open>SphinxLeafType\<close> of \<open>@sphinx-labs/contracts\<close> is
  not in the sources; the source names its member \<open>APPROVE\<close>, and the data model of the
  specification lists the leaf types SETUP, PROPOSE, APPROVE and EXECUTE.
\<close>

datatype leaf_type = SETUP | PROPOSE | APPROVE | EXECUTE

text \<open>A leaf, a leaf with its proof, and the Merkle tree, with the fields the source reads.\<close>

record leaf =
  leaf_chainId :: nat
  leaf_index :: nat
  leafType :: leaf_type
  leaf_data :: string

record leaf_with_proof =
  leaf :: leaf
  leaf_proof :: "string list"

record merkle_tree =
  root :: string
  leavesWithProofs :: "leaf_with_proof list"

record project_deployment =
  pd_chainId :: nat
  deploymentId :: string
  pd_name :: string
  pd_isExecuting :: bool

record chain_status =
  cs_chainId :: nat
  numLeaves :: nat

record proposal_tree =
  tree_root :: string
  chainStatus :: "chain_status list"

record proposal_request =
  apiKey :: string
  pr_orgId :: string
  pr_isTestnet :: bool
  chainIds :: "nat list"
  deploymentName :: string
  pr_owners :: "string list"
  pr_threshold :: nat
  pr_safeAddress :: string
  pr_moduleAddress :: string
  pr_safeInitData :: string
  safeInitSaltNonce :: string
  projectDeployments :: "project_deployment list"
  gasEstimates :: "gas_estimate list"
  diff :: preview
  compilerConfigId :: "string option"
  tree :: proposal_tree

record propose_args =
  confirm :: bool
  isTestnet :: bool
  isDryRun :: bool
  silent :: bool
  scriptPath :: string
  forceRecompile :: bool
  targetContract :: "string option"

text \<open>What \<open>propose\<close> returns; \<open>return {}\<close> leaves every field undefined.\<close>

record propose_result =
  proposalRequest :: "proposal_request option"
  canonicalConfigData :: "string option"
  configArtifacts :: "config_artifacts option"
  parsedConfigArray :: "parsed_config list option"
  merkleTree :: "merkle_tree option"

definition emptyResult :: propose_result where
  "emptyResult = \<lparr>proposalRequest = None, canonicalConfigData = None, configArtifacts = None,
     parsedConfigArray = None, merkleTree = None\<rparr>"

subsection \<open>Effects and errors\<close>

text \<open>
  A run ends by \<open>process.exit\<close>, by a thrown error or by returning. The calls made to
  collaborators are recorded, in order, as a trace of events. Spinner updates are not
  recorded, nor is the reading of \<open>foundry.toml\<close> and of the contract interfaces.
  Collaborators are taken to return normally. The source throws plain \<open>Error\<close>s; they are
  told apart by a constructor each, \<open>InconsistentConfiguration\<close> being the error of lines
  381-386.
\<close>

datatype error =
    InconsistentConfiguration
  | ConfigNotDefined
  | MultipleApprovalLeaves nat
  | TypeError

datatype 'a outcome = Exit nat | Throw error | Return 'a

datatype event =
    ConsoleError string
  | ConsoleLog string
  | Compile bool bool
  | ForgeScript string
  | LeafGasEstimates
  | GetConfigArtifacts
  | MakeMerkleTree
  | NetworkGasEstimate nat
  | Prompt string
  | StoreCanonicalConfig string string "string list"
  | RelayProposal proposal_request

type_synonym 'a run = "'a outcome \<times> event list"

definition emit :: "event \<Rightarrow> unit run" where
  "emit e = (Return (), [e])"

definition emits :: "event list \<Rightarrow> unit run" where
  "emits es = (Return (), es)"

definition andThen :: "'a run \<Rightarrow> ('a \<Rightarrow> 'b run) \<Rightarrow> 'b run" where
  "andThen m f =
     (case m of
        (Return a, ev) \<Rightarrow> (case f a of (r, ev') \<Rightarrow> (r, ev @ ev'))
      | (Exit n, ev) \<Rightarrow> (Exit n, ev)
      | (Throw e, ev) \<Rightarrow> (Throw e, ev))"

text \<open>The calls to the remote registry.\<close>

fun isRemoteCall :: "event \<Rightarrow> bool" where
  "isRemoteCall (StoreCanonicalConfig k orgid cfgs) = True"
| "isRemoteCall (RelayProposal req) = True"
| "isRemoteCall e = False"

subsection \<open>Collaborators\<close>

text \<open>
  What one pass of the collection loop finds for a network: no RPC endpoint in
  \<open>foundry.toml\<close> (with the name of the network), a Forge script that exits with a non-zero
  code (with the RPC URL it ran against, its standard output and its standard error), or
  the collected data. The action inputs are empty when the script broadcast nothing on
  that network.
\<close>

record collected_network =
  deploymentInfo :: deployment_info
  collectedInputs :: "raw_action_input list"
  libraries :: "string list"
  forkUrl :: string

datatype collection =
    NoRpcEndpoint string
  | ForgeScriptFailed string string string
  | Collected collected_network

text \<open>
  The environment of a run: the \<open>SPHINX_API_KEY\<close> variable, the outcome of the collection
  for each network of the script in order, and the functions of \<open>@sphinx-labs/core\<close>,
  \<open>@sphinx-labs/contracts\<close>, the Foundry helpers and the \<open>SphinxContext\<close> that the
  source calls. \<open>makeSphinxMerkleTree\<close> stands for \<open>makeSphinxMerkleTree \<circ> makeDeploymentData\<close>,
  \<open>canonicalConfig\<close> for \<open>JSON.stringify \<circ> getParsedConfigWithCompilerInputs\<close>.
\<close>

record environment =
  SPHINX_API_KEY :: "string option"
  networks :: "collection list"
  getSphinxLeafGasEstimates :: "collected_network list \<Rightarrow> gas_estimate list"
  getConfigArtifacts :: "collected_network list \<Rightarrow> config_artifacts"
  makeParsedConfig ::
    "deployment_info \<Rightarrow> raw_action_input list \<Rightarrow> gas_estimate option \<Rightarrow>
     config_artifacts \<Rightarrow> string list \<Rightarrow> parsed_config"
  makeSphinxMerkleTree :: "parsed_config list \<Rightarrow> merkle_tree"
  getNetworkGasEstimate :: "parsed_config list \<Rightarrow> nat \<Rightarrow> gas_estimate"
  getPreview :: "parsed_config list \<Rightarrow> preview"
  getPreviewString :: "preview \<Rightarrow> bool \<Rightarrow> string"
  canonicalConfig :: "parsed_config list \<Rightarrow> config_artifacts \<Rightarrow> string"
  storeCanonicalConfig :: "string \<Rightarrow> string \<Rightarrow> string list \<Rightarrow> string"

text \<open>
  Modelled from the spec: \<open>elementsEqual\<close> of \<open>@sphinx-labs/core\<close> is not in the sources.
  The specification asks that the compared fields be identical across all chains: every
  element equals the first one, and an empty array passes.
\<close>

definition elementsEqual :: "'a list \<Rightarrow> bool" where
  "elementsEqual ary = (case ary of [] \<Rightarrow> True | e0 # _ \<Rightarrow> list_all (\<lambda>e. e = e0) ary)"

subsection \<open>\<open>buildParsedConfigArray\<close>\<close>

text \<open>
  The collection loop (lines 104-199): the first failing network ends the process, after
  the error message for a missing endpoint, or after the output and the error output of
  the failed script have been printed (lines 156-163).
\<close>

fun collectNetworks :: "collection list \<Rightarrow> collected_network list run" where
  "collectNetworks [] = (Return [], [])"
| "collectNetworks (NoRpcEndpoint networkName # rest) =
     (Exit 1, [ConsoleError (''No RPC endpoint specified in your foundry.toml for the network: ''
                             @ networkName @ ''.'')])"
| "collectNetworks (ForgeScriptFailed rpcUrl stdout stderr # rest) =
     (Exit 1, [ForgeScript rpcUrl, ConsoleLog stdout, ConsoleLog stderr])"
| "collectNetworks (Collected c # rest) =
     andThen (emit (ForgeScript (forkUrl c))) (\<lambda>_.
     andThen (collectNetworks rest) (\<lambda>collected.
       (Return (c # collected), [])))"

record built_configs =
  built_parsedConfigArray :: "parsed_config list option"
  built_configArtifacts :: "config_artifacts option"
  isEmpty :: bool

text \<open>\<open>gasEstimatesArray[i]\<close>: undefined beyond the end of the array.\<close>

definition nthOpt :: "'a list \<Rightarrow> nat \<Rightarrow> 'a option" where
  "nthOpt xs i = (if i < length xs then Some (xs ! i) else None)"

definition buildParsedConfigArray :: "environment \<Rightarrow> propose_args \<Rightarrow> built_configs run" where
  "buildParsedConfigArray env args =
     andThen (collectNetworks (networks env)) (\<lambda>collected.
       let nothing = (length collected = 0 \<or> list_all (\<lambda>c. length (collectedInputs c) = 0) collected)
       in if nothing
          then (Return \<lparr>built_parsedConfigArray = None, built_configArtifacts = None,
                  isEmpty = True\<rparr>, [])
          else
            andThen (emit LeafGasEstimates) (\<lambda>_.
            let estimatesArray = getSphinxLeafGasEstimates env collected in
            andThen (if forceRecompile args then emit (Compile True True) else (Return (), [])) (\<lambda>_.
            andThen (emit GetConfigArtifacts) (\<lambda>_.
            let artifacts = getConfigArtifacts env collected;
                configs =
                  map (\<lambda>(c, i). makeParsedConfig env (deploymentInfo c) (collectedInputs c)
                                   (nthOpt estimatesArray i) artifacts (libraries c))
                      (zip collected [0 ..< length collected])
            in (Return \<lparr>built_parsedConfigArray = Some configs,
                  built_configArtifacts = Some artifacts, isEmpty = False\<rparr>, [])))))"

subsection \<open>\<open>getProjectDeploymentForChain\<close> (lines 476-504)\<close>

definition getProjectDeploymentForChain ::
  "merkle_tree \<Rightarrow> parsed_config \<Rightarrow> error + project_deployment option" where
  "getProjectDeploymentForChain mtree config =
     (let approvalLeaves =
            filter (\<lambda>l. leafType (leaf l) = APPROVE \<and> leaf_chainId (leaf l) = chainId config)
                   (leavesWithProofs mtree)
      in if length approvalLeaves = 0 then Inr None
         else if length approvalLeaves > 1 then Inl (MultipleApprovalLeaves (chainId config))
         else
           (let deploymentId = root mtree
            in Inr (Some \<lparr>pd_chainId = chainId config, deploymentId = deploymentId,
                      pd_name = projectName (newConfig config),
                      pd_isExecuting = isExecuting (initialState config)\<rparr>)))"

subsection \<open>\<open>propose\<close> (lines 261-474)\<close>

text \<open>
  Locals of the source that share their name with a field are abbreviated: \<open>mtree\<close> for
  \<open>merkleTree\<close>, \<open>config\<close> and \<open>configs\<close> for \<open>parsedConfig\<close> and \<open>parsedConfigArray\<close>,
  \<open>request\<close> for \<open>proposalRequest\<close>, \<open>artifacts\<close> for \<open>configArtifacts\<close>, \<open>configData\<close> for
  \<open>canonicalConfigData\<close>.
\<close>

text \<open>
  The loop over the parsed configs (lines 393-420), with its three arrays
  (\<open>projectDeployments\<close>, \<open>chainStatus\<close>, \<open>chainIds\<close>) as accumulators. A chain without
  action inputs is skipped.
\<close>

fun chainLoop ::
  "merkle_tree \<Rightarrow> parsed_config list \<Rightarrow>
   project_deployment list \<times> chain_status list \<times> nat list \<Rightarrow>
   error + project_deployment list \<times> chain_status list \<times> nat list" where
  "chainLoop mtree [] acc = Inr acc"
| "chainLoop mtree (config # rest) (deployments, statuses, ids) =
     (if length (actionInputs config) = 0
      then chainLoop mtree rest (deployments, statuses, ids)
      else
        (case getProjectDeploymentForChain mtree config of
           Inl e \<Rightarrow> Inl e
         | Inr projectDeployment \<Rightarrow>
             chainLoop mtree rest
               (case projectDeployment of
                  None \<Rightarrow> deployments
                | Some pd \<Rightarrow> deployments @ [pd],
                statuses @ [\<lparr>cs_chainId = chainId config,
                             numLeaves = length (actionInputs config) + 1\<rparr>],
                ids @ [chainId config])))"

text \<open>The fields that must agree on every chain (lines 373-380).\<close>

definition shouldBeEqual :: "parsed_config \<Rightarrow> new_config \<times> string \<times> string \<times> string" where
  "shouldBeEqual config =
     (newConfig config, safeAddress config, moduleAddress config, safeInitData config)"

text \<open>The preview is printed or, without \<open>confirm\<close> and \<open>isDryRun\<close>, put to the user (lines 358-367).\<close>

definition showPreview :: "environment \<Rightarrow> propose_args \<Rightarrow> preview \<Rightarrow> unit run" where
  "showPreview env args pv =
     (if confirm args \<or> isDryRun args
      then (if \<not> silent args then emit (ConsoleLog (getPreviewString env pv False))
            else (Return (), []))
      else emit (Prompt (getPreviewString env pv True)))"

text \<open>The last step (lines 450-466): a dry run skips both calls to the registry.\<close>

definition relay ::
  "environment \<Rightarrow> propose_args \<Rightarrow> proposal_request \<Rightarrow> string \<Rightarrow> proposal_request run" where
  "relay env args request configData =
     (if isDryRun args then (Return request, [])
      else
        (let configId = storeCanonicalConfig env (apiKey request) (pr_orgId request) [configData];
             request' = request\<lparr>compilerConfigId := Some configId\<rparr>
         in (Return request',
             [StoreCanonicalConfig (apiKey request) (pr_orgId request) [configData],
              RelayProposal request'])))"

text \<open>Lines 340-474: from the Merkle tree to the result, for a defined array of configs.\<close>

definition proposeParsed ::
  "environment \<Rightarrow> propose_args \<Rightarrow> string \<Rightarrow> parsed_config list \<Rightarrow> config_artifacts \<Rightarrow>
   propose_result run" where
  "proposeParsed env args key configs artifacts =
     andThen (emit MakeMerkleTree) (\<lambda>_.
     let mtree = makeSphinxMerkleTree env configs;
         withActions = filter (\<lambda>config. length (actionInputs config) > 0) configs
     in
     andThen (emits (map (\<lambda>config. NetworkGasEstimate (chainId config)) withActions)) (\<lambda>_.
     let estimates = map (\<lambda>config. getNetworkGasEstimate env configs (chainId config)) withActions;
         preview = getPreview env configs
     in
     andThen (showPreview env args preview) (\<lambda>_.
       if \<not> elementsEqual (map shouldBeEqual configs)
       then (Throw InconsistentConfiguration, [])
       else
         (case configs of
            [] \<Rightarrow> (Throw TypeError, [])
          | first # _ \<Rightarrow>
              (case chainLoop mtree configs ([], [], []) of
                 Inl e \<Rightarrow> (Throw e, [])
               | Inr (deployments, statuses, ids) \<Rightarrow>
                   (let request =
                          \<lparr>apiKey = key,
                           pr_orgId = orgId (newConfig first),
                           pr_isTestnet = isTestnet args,
                           chainIds = ids,
                           deploymentName = projectName (newConfig first),
                           pr_owners = owners (newConfig first),
                           pr_threshold = threshold (newConfig first),
                           pr_safeAddress = safeAddress first,
                           pr_moduleAddress = moduleAddress first,
                           pr_safeInitData = safeInitData first,
                           safeInitSaltNonce = saltNonce (newConfig first),
                           projectDeployments = deployments,
                           gasEstimates = estimates,
                           diff = preview,
                           compilerConfigId = None,
                           tree = \<lparr>tree_root = root mtree, chainStatus = statuses\<rparr>\<rparr>;
                        configData = canonicalConfig env configs artifacts
                    in andThen (relay env args request configData)
                         (\<lambda>request'.
                            (Return \<lparr>proposalRequest = Some request',
                               canonicalConfigData = Some configData,
                               configArtifacts = Some artifacts,
                               parsedConfigArray = Some configs,
                               merkleTree = Some mtree\<rparr>, []))))))))"

definition apiKeyMessage :: string where
  "apiKeyMessage = ''You must specify a 'SPHINX_API_KEY' environment variable.''"

text \<open>
  \<open>propose\<close>. A variable that is unset and one that is the empty string are both falsy.
  The \<open>SphinxContext\<close> is the default one, whose \<open>buildParsedConfigArray\<close> is the function of
  this module.
\<close>

definition propose :: "environment \<Rightarrow> propose_args \<Rightarrow> propose_result run" where
  "propose env args =
     (case SPHINX_API_KEY env of
        None \<Rightarrow> (Exit 1, [ConsoleError apiKeyMessage])
      | Some key \<Rightarrow>
          if key = [] then (Exit 1, [ConsoleError apiKeyMessage])
          else
            andThen (emit (Compile (silent args) False)) (\<lambda>_.
            andThen (buildParsedConfigArray env args) (\<lambda>built.
              if isEmpty built then (Return emptyResult, [])
              else
                (case (built_parsedConfigArray built, built_configArtifacts built) of
                   (Some configs, Some artifacts) \<Rightarrow>
                     proposeParsed env args key configs artifacts
                 | _ \<Rightarrow> (Throw ConfigNotDefined, [])))))"

definition clearCompilerConfigId :: "propose_result \<Rightarrow> propose_result" where
  "clearCompilerConfigId res =
     res\<lparr>proposalRequest :=
           map_option (\<lambda>request. request\<lparr>compilerConfigId := None\<rparr>) (proposalRequest res)\<rparr>"

text \<open>What a run returned, when it returned.\<close>

definition returned :: "'a run \<Rightarrow> 'a option" where
  "returned r = (case fst r of Return a \<Rightarrow> Some a | Exit n \<Rightarrow> None | Throw e \<Rightarrow> None)"

definition returnedRequest :: "propose_result run \<Rightarrow> proposal_request option" where
  "returnedRequest r = (case returned r of None \<Rightarrow> None | Some res \<Rightarrow> proposalRequest res)"

text \<open>A network whose collection succeeded and found no action.\<close>

fun collectedNothing :: "collection \<Rightarrow> bool" where
  "collectedNothing (Collected c) = (length (collectedInputs c) = 0)"
| "collectedNothing (NoRpcEndpoint networkName) = False"
| "collectedNothing (ForgeScriptFailed rpcUrl stdout stderr) = False"

section \<open>The authorization steps of the test helpers (packages/plugins/test/helpers.ts)\<close>

subsection \<open>The helper's own computations\<close>

text \<open>
  \<open>proposeThenApproveDeploymentThenExecute\<close> (lines 128-254) works on the leaves of
  \<open>proposalRequest.tree\<close> and on the \<open>AuthState\<close> the Auth contract reports. The values it
  computes from the leaves (lines 159-166, 179-181, 201) are translated here.
\<close>

datatype auth_status = AuthStatus_EMPTY | AuthStatus_SETUP | AuthStatus_PROPOSED | AuthStatus_COMPLETED

record auth_state =
  status :: auth_status
  leafsExecuted :: nat
  numLeafs :: nat

definition containsSetupLeaf :: "leaf list \<Rightarrow> nat \<Rightarrow> bool" where
  "containsSetupLeaf leaves cid = list_ex (\<lambda>l. leafType l = SETUP \<and> leaf_chainId l = cid) leaves"

definition expectedNumLeafs :: "leaf list \<Rightarrow> nat \<Rightarrow> nat" where
  "expectedNumLeafs leaves cid = length (filter (\<lambda>l. leaf_chainId l = cid) leaves)"

definition proposalLeafIndex :: "leaf list \<Rightarrow> nat \<Rightarrow> nat" where
  "proposalLeafIndex leaves cid = (if containsSetupLeaf leaves cid then 1 else 0)"

definition expectedInitialStatus :: "leaf list \<Rightarrow> nat \<Rightarrow> auth_status" where
  "expectedInitialStatus leaves cid =
     (if containsSetupLeaf leaves cid then AuthStatus_SETUP else AuthStatus_EMPTY)"

definition expectedLeafsExecuted :: "leaf list \<Rightarrow> nat \<Rightarrow> nat" where
  "expectedLeafsExecuted leaves cid = (if containsSetupLeaf leaves cid then 2 else 1)"

subsection \<open>Collaborators of the helper, from the specification\<close>

text \<open>
  Modelled from the spec: \<open>findProposalRequestLeaf\<close> of \<open>@sphinx-labs/core\<close> is not in the
  sources. By the data model a leaf is identified by its chain and its per-chain index;
  \<open>None\<close> stands for a leaf that is not found.
\<close>

definition findProposalRequestLeaf :: "leaf list \<Rightarrow> nat \<Rightarrow> nat \<Rightarrow> leaf option" where
  "findProposalRequestLeaf leaves i cid =
     find (\<lambda>l. leaf_index l = i \<and> leaf_chainId l = cid) leaves"

text \<open>
  Modelled from the spec: the LeafBuilder (section 4.1) is not in the sources. For one
  chain it emits a SETUP leaf when setup is required, then one PROPOSE leaf, one APPROVE
  leaf and one EXECUTE leaf for each action, with indices in emission order (the order
  SETUP, PROPOSE, APPROVE, EXECUTE is the one of sections 4.4, 5 and 8). A chain without
  actions fails with \<open>EmptyActionSet\<close> and contributes no leaf to the tree.
\<close>

record chain_input =
  ci_chainId :: nat
  setupRequired :: bool
  ci_actions :: "string list"

datatype leaf_error = EmptyActionSet

text \<open>
  Modelled from the spec: the index assignment of the LeafBuilder, which is not in the
  sources. Indices are assigned strictly in emission order, from a first index on.
\<close>

fun emitLeaves :: "nat \<Rightarrow> nat \<Rightarrow> (leaf_type \<times> string) list \<Rightarrow> leaf list" where
  "emitLeaves cid i [] = []"
| "emitLeaves cid i ((ty, payload) # rest) =
     \<lparr>leaf_chainId = cid, leaf_index = i, leafType = ty, leaf_data = payload\<rparr>
       # emitLeaves cid (Suc i) rest"

text \<open>
  Modelled from the spec: the LeafBuilder for one chain, which is not in the sources;
  \<open>EmptyActionSet\<close> for a chain with zero actions.
\<close>

definition buildLeaves :: "chain_input \<Rightarrow> leaf_error + leaf list" where
  "buildLeaves c =
     (if ci_actions c = [] then Inl EmptyActionSet
      else Inr (emitLeaves (ci_chainId c) 0
             ((if setupRequired c then [(SETUP, [])] else [])
              @ [(PROPOSE, []), (APPROVE, [])]
              @ map (\<lambda>a. (EXECUTE, a)) (ci_actions c))))"

text \<open>
  Modelled from the spec: the global leaf set of the ProposalOrchestrator (section 4.5,
  step 1), which is not in the sources. A chain with zero actions is dropped.
\<close>

definition leavesOf :: "chain_input \<Rightarrow> leaf list" where
  "leavesOf c = (case buildLeaves c of Inl e \<Rightarrow> [] | Inr ls \<Rightarrow> ls)"

text \<open>
  Modelled from the spec: the leaves of all chains of a proposal, accumulated chain by
  chain; the accumulation is not in the sources.
\<close>

definition allLeaves :: "chain_input list \<Rightarrow> leaf list" where
  "allLeaves inputs = concat (map leavesOf inputs)"

text \<open>
  Modelled from the spec: the Auth contract is not in the sources. Its state machine is
  the AuthStateMachine of section 4.4: the submitted leaf must carry the index equal to
  \<open>leafsExecuted\<close> (otherwise \<open>StateDesync\<close>); SETUP is accepted in EMPTY, PROPOSE in EMPTY
  or SETUP, APPROVE in PROPOSED; every accepted leaf increments \<open>leafsExecuted\<close>, and
  PROPOSE makes \<open>numLeafs\<close> the number of leaves of the chain.
\<close>

datatype auth_error = StateDesync | Rejected | LeafNotFound

text \<open>
  Modelled from the spec: the AuthState of a root the contract has not seen, created at
  EMPTY; the contract is not in the sources.
\<close>

definition emptyAuthState :: auth_state where
  "emptyAuthState = \<lparr>status = AuthStatus_EMPTY, leafsExecuted = 0, numLeafs = 0\<rparr>"

text \<open>
  Modelled from the spec: the status transitions of section 4.4, of the contract that is
  not in the sources.
\<close>

fun authTransition :: "auth_status \<Rightarrow> leaf_type \<Rightarrow> auth_status option" where
  "authTransition AuthStatus_EMPTY SETUP = Some AuthStatus_SETUP"
| "authTransition AuthStatus_EMPTY PROPOSE = Some AuthStatus_PROPOSED"
| "authTransition AuthStatus_SETUP PROPOSE = Some AuthStatus_PROPOSED"
| "authTransition AuthStatus_PROPOSED APPROVE = Some AuthStatus_COMPLETED"
| "authTransition s ty = None"

text \<open>
  Modelled from the spec: one successful or rejected leaf submission to the contract that
  is not in the sources, with the guard on the leaf index.
\<close>

definition submitLeaf :: "leaf list \<Rightarrow> auth_state \<Rightarrow> leaf \<Rightarrow> auth_error + auth_state" where
  "submitLeaf leaves st l =
     (if leaf_index l \<noteq> leafsExecuted st then Inl StateDesync
      else case authTransition (status st) (leafType l) of
             None \<Rightarrow> Inl Rejected
           | Some s' \<Rightarrow>
               Inr (st\<lparr>status := s', leafsExecuted := leafsExecuted st + 1,
                        numLeafs := (if leafType l = PROPOSE
                                     then length (filter (\<lambda>x. leaf_chainId x = leaf_chainId l) leaves)
                                     else numLeafs st)\<rparr>))"

text \<open>
  The submissions of the helpers up to the proposal. The SETUP leaf is looked up at index
  0 and submitted (lines 299, 311-316) when the tree has one for the chain; then the leaf
  looked up at \<open>proposalLeafIndex\<close> is submitted (lines 166-171, 190-195).
\<close>

definition submitSetup :: "leaf list \<Rightarrow> nat \<Rightarrow> auth_error + auth_state" where
  "submitSetup leaves cid =
     (if containsSetupLeaf leaves cid
      then (case findProposalRequestLeaf leaves 0 cid of
              None \<Rightarrow> Inl LeafNotFound
            | Some setupLeaf \<Rightarrow> submitLeaf leaves emptyAuthState setupLeaf)
      else Inr emptyAuthState)"

definition submitThroughPropose :: "leaf list \<Rightarrow> nat \<Rightarrow> auth_error + auth_state" where
  "submitThroughPropose leaves cid =
     (case submitSetup leaves cid of
        Inl e \<Rightarrow> Inl e
      | Inr st \<Rightarrow>
          (case findProposalRequestLeaf leaves (proposalLeafIndex leaves cid) cid of
             None \<Rightarrow> Inl LeafNotFound
           | Some proposalLeaf \<Rightarrow> submitLeaf leaves st proposalLeaf))"

section \<open>Sample inputs\<close>

text \<open>Concrete collaborators and inputs, used to run the definitions.\<close>

definition sampleParsedConfig ::
  "(string \<Rightarrow> string) \<Rightarrow> deployment_info \<Rightarrow> raw_action_input list \<Rightarrow> gas_estimate option \<Rightarrow>
   config_artifacts \<Rightarrow> string list \<Rightarrow> parsed_config" where
  "sampleParsedConfig nameOf info inputs gas artifacts libs =
     \<lparr>chainId = length info,
      newConfig = \<lparr>orgId = ''org'', projectName = nameOf info, owners = [''0xa'', ''0xb''],
                   threshold = 2, saltNonce = ''0''\<rparr>,
      safeAddress = ''0xsafe'', moduleAddress = ''0xmodule'', safeInitData = ''0xinit'',
      actionInputs = inputs, initialState = \<lparr>isExecuting = False\<rparr>\<rparr>"

definition sampleLeaves :: "parsed_config \<Rightarrow> leaf_with_proof list" where
  "sampleLeaves config =
     (if actionInputs config = [] then []
      else \<lparr>leaf = \<lparr>leaf_chainId = chainId config, leaf_index = 0, leafType = APPROVE,
                     leaf_data = ''approve''\<rparr>, leaf_proof = []\<rparr>
           # map (\<lambda>(a, i). \<lparr>leaf = \<lparr>leaf_chainId = chainId config, leaf_index = Suc i,
                                     leafType = EXECUTE, leaf_data = a\<rparr>, leaf_proof = []\<rparr>)
                 (zip (actionInputs config) [0 ..< length (actionInputs config)]))"

definition sampleTree :: "parsed_config list \<Rightarrow> merkle_tree" where
  "sampleTree configs = \<lparr>root = ''0xroot'', leavesWithProofs = concat (map sampleLeaves configs)\<rparr>"

definition sampleEnvironment :: "(string \<Rightarrow> string) \<Rightarrow> collection list \<Rightarrow> environment" where
  "sampleEnvironment nameOf nets =
     \<lparr>SPHINX_API_KEY = Some ''key'',
      networks = nets,
      getSphinxLeafGasEstimates = map (\<lambda>c. ''gas''),
      getConfigArtifacts = (\<lambda>cs. ''artifacts''),
      makeParsedConfig = sampleParsedConfig nameOf,
      makeSphinxMerkleTree = sampleTree,
      getNetworkGasEstimate = (\<lambda>configs c. ''estimate''),
      getPreview = (\<lambda>configs. ''preview''),
      getPreviewString = (\<lambda>pv b. pv),
      canonicalConfig = (\<lambda>configs artifacts. ''canonical''),
      storeCanonicalConfig = (\<lambda>key org cfgs. ''config-id'')\<rparr>"

definition sampleNetwork :: "string \<Rightarrow> raw_action_input list \<Rightarrow> collection" where
  "sampleNetwork info inputs =
     Collected \<lparr>deploymentInfo = info, collectedInputs = inputs, libraries = [], forkUrl = ''http://rpc''\<rparr>"

definition sampleArgs :: "bool \<Rightarrow> propose_args" where
  "sampleArgs dry = \<lparr>confirm = True, isTestnet = True, isDryRun = dry, silent = True,
     scriptPath = ''Deploy.s.sol'', forceRecompile = False, targetContract = None\<rparr>"

definition sampleChains :: "chain_input list" where
  "sampleChains =
     [\<lparr>ci_chainId = 1, setupRequired = True, ci_actions = [''a1'', ''a2'']\<rparr>,
      \<lparr>ci_chainId = 2, setupRequired = False, ci_actions = [''b1'']\<rparr>,
      \<lparr>ci_chainId = 3, setupRequired = False, ci_actions = []\<rparr>]"

section \<open>Facts\<close>

subsection \<open>The sort and the signing loop\<close>

lemma insertBy_insort_key:
  "insertBy (compareAddresses address) x ys = insort_key address x ys"
  by (induction ys) (auto simp: compareAddresses_def)

lemma sortBy_sort_key: "sortBy (compareAddresses address) xs = sort_key address xs"
  by (induction xs) (simp_all add: insertBy_insort_key)

lemma collectSignatures_take:
  "collectSignatures sign rt thr acc ks =
     acc @ map (\<lambda>k. sign k rt)
       (if int (length acc) < thr \<and> thr \<le> int (length acc + length ks)
        then take (nat thr - length acc) ks else ks)"
proof (induction ks arbitrary: acc)
  case Nil
  then show ?case by simp
next
  case (Cons k ks)
  show ?case
  proof (cases "int (length acc) + 1 = thr")
    case True
    then have "nat thr - length acc = Suc 0" by linarith
    with True show ?thesis by (simp add: Let_def)
  next
    case False
    show ?thesis
    proof (cases "int (length acc) < thr \<and> thr \<le> int (length acc + length (k # ks))")
      case True
      with False have lt: "int (length acc) + 1 < thr" by linarith
      then have "nat thr - length acc = Suc (nat thr - Suc (length acc))"
        by linarith
      with True False lt show ?thesis
        using Cons.IH [of "acc @ [sign k rt]"] by (simp add: Let_def)
    next
      case F2: False
      with False show ?thesis
        using Cons.IH [of "acc @ [sign k rt]"] by (auto simp: Let_def)
    qed
  qed
qed

lemma getSignatures_signersUsed:
  "getSignatures address sign keys rt thr =
     map (\<lambda>k. sign k rt) (signersUsed thr (sort_key address keys))"
proof -
  have "(0 < thr) = (1 \<le> thr)" by linarith
  then show ?thesis
    by (simp add: getSignatures_def sortBy_sort_key collectSignatures_take signersUsed_def
        Let_def)
qed

lemma sorted_signersUsed:
  "sorted (map address ks) \<Longrightarrow> sorted (map address (signersUsed thr ks))"
  by (simp add: signersUsed_def sorted_wrt_take flip: take_map)

lemma sort_key_permutation:
  assumes "mset keys' = mset keys" and "distinct (map address keys)"
  shows "sort_key address keys' = sort_key address keys"
proof (rule sort_key_inj_key_eq)
  show "mset keys' = mset (sort_key address keys)"
    using assms(1) by simp
  have "inj_on address (set keys)"
    using assms(2) by (simp add: distinct_map)
  moreover have "set keys' = set keys"
    using assms(1) by (rule mset_eq_setD)
  ultimately show "inj_on address (set keys')" by simp
  show "sorted (map address (sort_key address keys))" by simp
qed

subsection \<open>Runs and traces\<close>

lemma fst_andThen:
  "fst (andThen m f) = (case fst m of Return a \<Rightarrow> fst (f a) | Exit n \<Rightarrow> Exit n | Throw e \<Rightarrow> Throw e)"
  by (cases m) (auto simp: andThen_def split: outcome.splits prod.splits)

lemma snd_andThen:
  "snd (andThen m f) = (case fst m of Return a \<Rightarrow> snd m @ snd (f a) | Exit n \<Rightarrow> snd m | Throw e \<Rightarrow> snd m)"
  by (cases m) (auto simp: andThen_def split: outcome.splits prod.splits)

lemma remote_andThen:
  "filter isRemoteCall (snd m) = [] \<Longrightarrow> (\<And>a. filter isRemoteCall (snd (f a)) = []) \<Longrightarrow>
   filter isRemoteCall (snd (andThen m f)) = []"
  by (simp add: snd_andThen split: outcome.splits)

lemma remote_collectNetworks: "filter isRemoteCall (snd (collectNetworks ns)) = []"
  by (induction ns rule: collectNetworks.induct) (simp_all add: snd_andThen emit_def split: outcome.splits)

lemma remote_buildParsedConfigArray: "filter isRemoteCall (snd (buildParsedConfigArray env args)) = []"
  unfolding buildParsedConfigArray_def Let_def
  by (intro remote_andThen remote_collectNetworks) (simp_all add: snd_andThen emit_def split: outcome.splits)

lemma chainLoop_acc:
  "chainLoop t pcs (ds, ss, ids) = Inr (ds', ss', ids') \<Longrightarrow>
     ss' = ss @ map (\<lambda>c. \<lparr>cs_chainId = chainId c, numLeaves = length (actionInputs c) + 1\<rparr>)
                 (filter (\<lambda>c. actionInputs c \<noteq> []) pcs)
   \<and> ids' = ids @ map chainId (filter (\<lambda>c. actionInputs c \<noteq> []) pcs)"
proof (induction pcs arbitrary: ds ss ids)
  case Nil
  then show ?case by simp
next
  case (Cons c pcs)
  show ?case
  proof (cases "actionInputs c = []")
    case True
    with Cons show ?thesis by simp
  next
    case False
    with Cons.prems obtain pd where
      "getProjectDeploymentForChain t c = Inr pd"
      and "chainLoop t pcs (case pd of None \<Rightarrow> ds | Some d \<Rightarrow> ds @ [d],
             ss @ [\<lparr>cs_chainId = chainId c, numLeaves = length (actionInputs c) + 1\<rparr>],
             ids @ [chainId c]) = Inr (ds', ss', ids')"
      by (auto split: sum.splits)
    from Cons.IH [OF this(2)] False show ?thesis by simp
  qed
qed


lemma fst_showPreview: "fst (showPreview env args pv) = Return ()"
  by (simp add: showPreview_def emit_def)

lemma remote_showPreview: "filter isRemoteCall (snd (showPreview env args pv)) = []"
  by (simp add: showPreview_def emit_def)

lemma fst_relay_dry:
  "fst (relay env (args\<lparr>isDryRun := True\<rparr>) req cd) = Return req"
  by (simp add: relay_def)

lemma fst_relay_wet:
  "fst (relay env (args\<lparr>isDryRun := False\<rparr>) req cd) =
     Return (req\<lparr>compilerConfigId := Some (storeCanonicalConfig env (apiKey req) (pr_orgId req) [cd])\<rparr>)"
  by (simp add: relay_def Let_def)

lemma proposeParsed_dry:
  "fst (proposeParsed env (args\<lparr>isDryRun := True\<rparr>) key pcs arts) =
     map_outcome clearCompilerConfigId (fst (proposeParsed env (args\<lparr>isDryRun := False\<rparr>) key pcs arts))"
  by (simp add: proposeParsed_def fst_andThen emit_def emits_def fst_showPreview Let_def
      fst_relay_dry fst_relay_wet clearCompilerConfigId_def
      split: list.splits sum.splits prod.splits)

lemma buildParsedConfigArray_isDryRun:
  "buildParsedConfigArray env (args\<lparr>isDryRun := b\<rparr>) = buildParsedConfigArray env args"
  by (simp add: buildParsedConfigArray_def)

lemma propose_dry:
  "fst (propose env (args\<lparr>isDryRun := True\<rparr>)) =
     map_outcome clearCompilerConfigId (fst (propose env (args\<lparr>isDryRun := False\<rparr>)))"
  by (simp add: propose_def fst_andThen emit_def buildParsedConfigArray_isDryRun proposeParsed_dry
      clearCompilerConfigId_def emptyResult_def
      split: option.splits outcome.splits)

lemma remote_relay_dry: "isDryRun args \<Longrightarrow> filter isRemoteCall (snd (relay env args req cd)) = []"
  by (simp add: relay_def)

lemma remote_proposeParsed_dry:
  "isDryRun args \<Longrightarrow> filter isRemoteCall (snd (proposeParsed env args key pcs arts)) = []"
  by (simp add: proposeParsed_def snd_andThen fst_andThen emit_def emits_def fst_showPreview Let_def
      remote_showPreview remote_relay_dry
      split: list.splits sum.splits prod.splits outcome.splits)

lemma remote_propose_dry:
  "isDryRun args \<Longrightarrow> filter isRemoteCall (snd (propose env args)) = []"
  by (simp add: propose_def snd_andThen fst_andThen emit_def remote_buildParsedConfigArray
      remote_proposeParsed_dry
      split: option.splits outcome.splits)


lemmas sample_defs = sampleEnvironment_def sampleNetwork_def sampleArgs_def sampleTree_def
  sampleLeaves_def sampleParsedConfig_def

lemmas propose_defs = propose_def buildParsedConfigArray_def proposeParsed_def andThen_def emit_def
  emits_def showPreview_def relay_def elementsEqual_def shouldBeEqual_def nthOpt_def
  getProjectDeploymentForChain_def emptyResult_def Let_def

subsection \<open>The consistency check, the chain loop and empty collections\<close>

lemma elementsEqual_iff: "elementsEqual xs = (\<forall>x \<in> set xs. \<forall>y \<in> set xs. x = y)"
proof (cases xs)
  case Nil
  then show ?thesis by (simp add: elementsEqual_def)
next
  case (Cons a list)
  have "list_all (\<lambda>e. e = a) (a # list) = (\<forall>x \<in> set (a # list). \<forall>y \<in> set (a # list). x = y)"
    unfolding list_all_iff by (metis list.set_intros(1))
  with Cons show ?thesis by (simp add: elementsEqual_def)
qed

lemma getProjectDeploymentForChain_error:
  "getProjectDeploymentForChain t c \<noteq> Inl InconsistentConfiguration"
  by (simp add: getProjectDeploymentForChain_def Let_def)

lemma chainLoop_error: "chainLoop t pcs acc \<noteq> Inl InconsistentConfiguration"
proof (induction pcs arbitrary: acc)
  case Nil
  then show ?case by simp
next
  case (Cons c pcs)
  obtain ds ss ids where acc: "acc = (ds, ss, ids)" by (cases acc) auto
  show ?case
  proof (cases "getProjectDeploymentForChain t c")
    case (Inl e')
    with getProjectDeploymentForChain_error [of t c] have "e' \<noteq> InconsistentConfiguration"
      by auto
    with Inl acc Cons.IH show ?thesis by simp
  next
    case (Inr pd)
    with acc Cons.IH show ?thesis by simp
  qed
qed

lemma fst_proposeParsed_inconsistent:
  "(fst (proposeParsed env args key pcs arts) = Throw InconsistentConfiguration)
     = (\<not> elementsEqual (map shouldBeEqual pcs))"
  using chainLoop_error [of "makeSphinxMerkleTree env pcs" pcs "([], [], [])"]
  by (auto simp: proposeParsed_def fst_andThen emit_def emits_def fst_showPreview Let_def
      relay_def simp del: chainLoop.simps split: list.splits sum.splits prod.splits if_splits)

lemma remote_proposeParsed_inconsistent:
  "\<not> elementsEqual (map shouldBeEqual pcs) \<Longrightarrow>
   filter isRemoteCall (snd (proposeParsed env args key pcs arts)) = []"
  by (simp add: proposeParsed_def snd_andThen fst_andThen emit_def emits_def fst_showPreview Let_def
      remote_showPreview)

lemma fst_buildParsedConfigArray_artifacts:
  "fst (buildParsedConfigArray env args) = Return built \<Longrightarrow> \<not> isEmpty built \<Longrightarrow>
   \<exists>configs arts. built_parsedConfigArray built = Some configs \<and> built_configArtifacts built = Some arts"
  by (auto simp: buildParsedConfigArray_def fst_andThen emit_def Let_def
      split: outcome.splits if_splits)

lemma propose_built:
  assumes "SPHINX_API_KEY env = Some key" "key \<noteq> []"
    and "fst (buildParsedConfigArray env args) = Return built" "\<not> isEmpty built"
    and "built_parsedConfigArray built = Some configs"
    and "built_configArtifacts built = Some arts"
  shows "fst (propose env args) = fst (proposeParsed env args key configs arts)"
    and "filter isRemoteCall (snd (propose env args))
           = filter isRemoteCall (snd (proposeParsed env args key configs arts))"
  using assms
  by (simp_all add: propose_def fst_andThen snd_andThen emit_def remote_buildParsedConfigArray)


lemma propose_Return_request:
  assumes "propose env args = (Return res, tr)" and "proposalRequest res = Some request"
    and "parsedConfigArray res = Some configs"
  shows "\<exists>ds ss ids. chainLoop (makeSphinxMerkleTree env configs) configs ([], [], []) = Inr (ds, ss, ids)
           \<and> projectDeployments request = ds \<and> chainStatus (tree request) = ss
           \<and> chainIds request = ids"
  using assms
  by (auto simp: propose_def proposeParsed_def andThen_def emit_def emits_def showPreview_def
      relay_def emptyResult_def Let_def simp del: chainLoop.simps
      split: option.splits if_splits prod.splits outcome.splits list.splits sum.splits)

lemma collectNetworks_nothing:
  "list_all collectedNothing ns \<Longrightarrow>
   \<exists>cs ev. collectNetworks ns = (Return cs, ev)
     \<and> list_all (\<lambda>c. length (collectedInputs c) = 0) cs
     \<and> MakeMerkleTree \<notin> set ev \<and> filter isRemoteCall ev = []"
  by (induction ns rule: collectNetworks.induct) (auto simp: andThen_def emit_def)

lemma propose_nothing_collected:
  assumes "SPHINX_API_KEY env = Some key" "key \<noteq> []"
    and "list_all collectedNothing (networks env)"
  shows "fst (propose env args) = Return emptyResult"
    and "MakeMerkleTree \<notin> set (snd (propose env args))"
    and "filter isRemoteCall (snd (propose env args)) = []"
proof -
  from collectNetworks_nothing [OF assms(3)]
  obtain cs ev where cs: "collectNetworks (networks env) = (Return cs, ev)"
    "list_all (\<lambda>c. length (collectedInputs c) = 0) cs"
    "MakeMerkleTree \<notin> set ev" "filter isRemoteCall ev = []" by blast
  then have b: "buildParsedConfigArray env args =
      (Return \<lparr>built_parsedConfigArray = None, built_configArtifacts = None, isEmpty = True\<rparr>, ev)"
    by (simp add: buildParsedConfigArray_def andThen_def)
  show "fst (propose env args) = Return emptyResult"
    using assms(1,2) b by (simp add: propose_def andThen_def emit_def)
  show "MakeMerkleTree \<notin> set (snd (propose env args))"
    using assms(1,2) b cs(3) by (simp add: propose_def andThen_def emit_def)
  show "filter isRemoteCall (snd (propose env args)) = []"
    using assms(1,2) b cs(4) by (simp add: propose_def andThen_def emit_def)
qed

subsection \<open>Leaves and the authorization steps\<close>

lemma find_conj_filter: "find (\<lambda>x. P x \<and> Q x) xs = find P (filter Q xs)"
  by (induction xs) auto

lemma list_ex_conj_filter: "list_ex (\<lambda>x. P x \<and> Q x) xs = list_ex P (filter Q xs)"
  by (induction xs) auto

lemma emitLeaves_chain: "l \<in> set (emitLeaves cid i ps) \<Longrightarrow> leaf_chainId l = cid"
  by (induction cid i ps rule: emitLeaves.induct) auto

lemma emitLeaves_execute:
  "l \<in> set (emitLeaves cid i (map (\<lambda>a. (EXECUTE, a)) as)) \<Longrightarrow> leafType l = EXECUTE \<and> i \<le> leaf_index l"
  by (induction as arbitrary: i) (auto, fastforce)

lemma buildLeaves_chain:
  "buildLeaves c = Inr ls \<Longrightarrow> l \<in> set ls \<Longrightarrow> leaf_chainId l = ci_chainId c"
  by (auto simp: buildLeaves_def split: if_splits dest: emitLeaves_chain)

lemma leavesOf_chain: "l \<in> set (leavesOf c) \<Longrightarrow> leaf_chainId l = ci_chainId c"
  by (cases "buildLeaves c") (auto simp: leavesOf_def dest: buildLeaves_chain)

lemma filter_leavesOf_other:
  "ci_chainId c \<noteq> cid \<Longrightarrow> filter (\<lambda>l. leaf_chainId l = cid) (leavesOf c) = []"
  by (auto simp: filter_empty_conv dest: leavesOf_chain)

lemma filter_leavesOf_same:
  "filter (\<lambda>l. leaf_chainId l = ci_chainId c) (leavesOf c) = leavesOf c"
  by (auto simp: filter_id_conv dest: leavesOf_chain)

lemma filter_allLeaves:
  "distinct (map ci_chainId inputs) \<Longrightarrow> c \<in> set inputs \<Longrightarrow>
   filter (\<lambda>l. leaf_chainId l = ci_chainId c) (concat (map leavesOf inputs)) = leavesOf c"
proof (induction inputs)
  case Nil
  then show ?case by simp
next
  case (Cons x inputs)
  show ?case
  proof (cases "x = c")
    case True
    have "filter (\<lambda>l. leaf_chainId l = ci_chainId c) (concat (map leavesOf inputs)) = []"
    proof -
      have "\<forall>y \<in> set inputs. ci_chainId y \<noteq> ci_chainId c"
        using Cons.prems(1) True by (force simp: image_iff)
      then show ?thesis
        by (induction inputs) (simp_all add: filter_leavesOf_other)
    qed
    with True show ?thesis by (simp add: filter_leavesOf_same)
  next
    case False
    with Cons.prems have "c \<in> set inputs" "ci_chainId x \<noteq> ci_chainId c" by auto
    with Cons show ?thesis by (simp add: filter_leavesOf_other)
  qed
qed


lemma no_setup_in_executes:
  "list_ex (\<lambda>l. leafType l = SETUP) (emitLeaves cid i (map (\<lambda>a. (EXECUTE, a)) as)) = False"
  by (auto simp: list_ex_iff dest: emitLeaves_execute)

lemma find_index_in_executes:
  "j < i \<Longrightarrow> find (\<lambda>l. leaf_index l = j) (emitLeaves cid i (map (\<lambda>a. (EXECUTE, a)) as)) = None"
  by (auto simp: find_None_iff dest: emitLeaves_execute)

lemma leavesOf_setup:
  "setupRequired c \<Longrightarrow> ci_actions c \<noteq> [] \<Longrightarrow>
   leavesOf c =
     \<lparr>leaf_chainId = ci_chainId c, leaf_index = 0, leafType = SETUP, leaf_data = []\<rparr>
     # \<lparr>leaf_chainId = ci_chainId c, leaf_index = 1, leafType = PROPOSE, leaf_data = []\<rparr>
     # \<lparr>leaf_chainId = ci_chainId c, leaf_index = 2, leafType = APPROVE, leaf_data = []\<rparr>
     # emitLeaves (ci_chainId c) 3 (map (\<lambda>a. (EXECUTE, a)) (ci_actions c))"
  by (simp add: leavesOf_def buildLeaves_def numeral_3_eq_3)

lemma leavesOf_no_setup:
  "\<not> setupRequired c \<Longrightarrow> ci_actions c \<noteq> [] \<Longrightarrow>
   leavesOf c =
     \<lparr>leaf_chainId = ci_chainId c, leaf_index = 0, leafType = PROPOSE, leaf_data = []\<rparr>
     # \<lparr>leaf_chainId = ci_chainId c, leaf_index = 1, leafType = APPROVE, leaf_data = []\<rparr>
     # emitLeaves (ci_chainId c) 2 (map (\<lambda>a. (EXECUTE, a)) (ci_actions c))"
  by (simp add: leavesOf_def buildLeaves_def numeral_2_eq_2)

lemma propose_leaf_index_of:
  "l \<in> set (leavesOf c) \<Longrightarrow> leafType l = PROPOSE \<Longrightarrow> ci_actions c \<noteq> [] \<Longrightarrow>
   leaf_index l = (if setupRequired c then 1 else 0)"
  by (cases "setupRequired c")
     (auto simp: leavesOf_setup leavesOf_no_setup dest: emitLeaves_execute)

section \<open>Claims\<close>

subsection \<open>Claims about signature collection\<close>

text \<open>
  C2. For signers with pairwise distinct derived addresses, every permutation of the key
  list gives the same result: the keys are sorted ascending by derived address before the
  first signature is made, and the signatures returned are those of an initial segment of
  the sorted list, so they are in ascending signer-address order whatever the input order.
  This holds for every threshold, in particular when the number of keys is at least the
  threshold.
\<close>

theorem getSignatures_order_invariant:
  assumes "mset keys' = mset keys" and "distinct (map address keys)"
  shows "getSignatures address sign keys' rt thr =
           getSignatures address sign keys rt thr
       \<and> getSignatures address sign keys' rt thr =
           map (\<lambda>k. sign k rt)
             (signersUsed thr (sortBy (compareAddresses address) keys))
       \<and> sorted (map address
             (signersUsed thr (sortBy (compareAddresses address) keys)))"
proof -
  have eq: "sort_key address keys' = sort_key address keys"
    using assms by (rule sort_key_permutation)
  have "sorted (map address (signersUsed thr (sort_key address keys)))"
    by (rule sorted_signersUsed) simp
  with eq show ?thesis
    by (simp add: getSignatures_signersUsed sortBy_sort_key)
qed

theorem getSignatures_order_invariant_witness:
  "mset [''ccc'', ''a'', ''bb''] = mset [''a'', ''bb'', ''ccc'']
   \<and> distinct (map length [''a'', ''bb'', ''ccc''])
   \<and> getSignatures length (\<lambda>k r. k @ r) [''ccc'', ''a'', ''bb''] ''r'' 2 = [''ar'', ''bbr'']
   \<and> getSignatures length (\<lambda>k r. k @ r) [''a'', ''bb'', ''ccc''] ''r'' 2 = [''ar'', ''bbr'']"
proof -
  have h1: "mset [''ccc'', ''a'', ''bb''] = mset [''a'', ''bb'', ''ccc'']" by simp
  have h2: "distinct (map length [''a'', ''bb'', ''ccc''])" by simp
  have "getSignatures length (\<lambda>k r. k @ r) [''ccc'', ''a'', ''bb''] ''r'' 2 =
          getSignatures length (\<lambda>k r. k @ r) [''a'', ''bb'', ''ccc''] ''r'' 2"
    using getSignatures_order_invariant [OF h1 h2] by blast
  moreover have "getSignatures length (\<lambda>k r. k @ r) [''a'', ''bb'', ''ccc''] ''r'' 2
                   = [''ar'', ''bbr'']"
    by (simp add: getSignatures_def compareAddresses_def)
  ultimately show ?thesis using h1 h2 by simp
qed

text \<open>
  C6. A threshold is a minimum number of signers, so it is at least 1; the callers pass
  the owner threshold of the configuration or the literal 1. When at least \<open>threshold\<close>
  signer keys are given, exactly \<open>threshold\<close> signatures are returned: those of the first
  \<open>threshold\<close> keys in ascending address order. Collection stops as soon as the threshold
  is met, and the remaining keys do not sign.
\<close>

theorem getSignatures_exactly_threshold:
  assumes "1 \<le> thr" and "thr \<le> int (length keys)"
  shows "int (length (getSignatures address sign keys rt thr)) = thr
       \<and> getSignatures address sign keys rt thr =
           map (\<lambda>k. sign k rt)
             (take (nat thr) (sortBy (compareAddresses address) keys))"
  using assms by (simp add: getSignatures_signersUsed signersUsed_def sortBy_sort_key)

theorem getSignatures_exactly_threshold_witness:
  "(1::int) \<le> 2 \<and> 2 \<le> int (length [''ccc'', ''a'', ''bb''])
   \<and> int (length (getSignatures length (\<lambda>k r. k @ r) [''ccc'', ''a'', ''bb''] ''r'' 2)) = 2"
proof -
  have h1: "(1::int) \<le> 2" by simp
  have h2: "2 \<le> int (length [''ccc'', ''a'', ''bb''])" by simp
  show ?thesis
    using getSignatures_exactly_threshold [OF h1 h2, of length "\<lambda>k r. k @ r" "''r''"] h2
    by simp
qed

text \<open>
  C7 as stated fails: with one key and the threshold 2 the function returns one signature.
  It has no failure path at all.
\<close>

theorem getSignatures_insufficient_counterexample:
  "int (length [''a'']) < 2
   \<and> getSignatures length (\<lambda>k r. k @ r) [''a''] ''r'' 2 = [''ar'']
   \<and> int (length (getSignatures length (\<lambda>k r. k @ r) [''a''] ''r'' 2)) < 2"
  by (simp add: getSignatures_def compareAddresses_def)

text \<open>
  C7, amended. Given fewer keys than the threshold, \<open>getSignatures\<close> raises nothing: it
  returns one signature for every key given, in ascending address order, which is fewer
  than \<open>threshold\<close> signatures. Keys given twice sign twice.
\<close>

theorem getSignatures_below_threshold:
  assumes "int (length keys) < thr"
  shows "getSignatures address sign keys rt thr =
           map (\<lambda>k. sign k rt) (sortBy (compareAddresses address) keys)
       \<and> length (getSignatures address sign keys rt thr) = length keys
       \<and> int (length (getSignatures address sign keys rt thr)) < thr"
  using assms by (simp add: getSignatures_signersUsed signersUsed_def sortBy_sort_key)

theorem getSignatures_below_threshold_witness:
  "int (length [''bb'', ''a'', ''a'']) < 5
   \<and> getSignatures length (\<lambda>k r. k @ r) [''bb'', ''a'', ''a''] ''r'' 5 = [''ar'', ''ar'', ''bbr'']"
proof -
  have h: "int (length [''bb'', ''a'', ''a'']) < 5" by simp
  have "getSignatures length (\<lambda>k r. k @ r) [''bb'', ''a'', ''a''] ''r'' 5 =
          map (\<lambda>k. k @ ''r'') (sortBy (compareAddresses length) [''bb'', ''a'', ''a''])"
    using getSignatures_below_threshold [OF h, of length "\<lambda>k r. k @ r" "''r''"] by blast
  then show ?thesis using h by (simp add: compareAddresses_def)
qed

subsection \<open>Claims about \<open>propose\<close>\<close>

text \<open>
  C1 as stated fails in its second half: two chains that agree on the owners, the
  threshold, the Safe address, the module address and the Safe init data, and differ only
  in the project name of \<open>newConfig\<close>, make \<open>propose\<close> throw the configuration error. The
  whole of \<open>newConfig\<close> is compared, not only its owners and threshold.
\<close>

theorem propose_agreeing_fields_counterexample:
  "fst (buildParsedConfigArray
          (sampleEnvironment (\<lambda>d. d) [sampleNetwork ''x'' [''a1''], sampleNetwork ''xx'' [''b1'']])
          (sampleArgs False))
     = Return \<lparr>built_parsedConfigArray =
                 Some [sampleParsedConfig (\<lambda>d. d) ''x'' [''a1''] (Some ''gas'') ''artifacts'' [],
                       sampleParsedConfig (\<lambda>d. d) ''xx'' [''b1''] (Some ''gas'') ''artifacts'' []],
               built_configArtifacts = Some ''artifacts'', isEmpty = False\<rparr>
   \<and> owners (newConfig (sampleParsedConfig (\<lambda>d. d) ''x'' [''a1''] (Some ''gas'') ''artifacts'' []))
       = owners (newConfig (sampleParsedConfig (\<lambda>d. d) ''xx'' [''b1''] (Some ''gas'') ''artifacts'' []))
   \<and> threshold (newConfig (sampleParsedConfig (\<lambda>d. d) ''x'' [''a1''] (Some ''gas'') ''artifacts'' []))
       = threshold (newConfig (sampleParsedConfig (\<lambda>d. d) ''xx'' [''b1''] (Some ''gas'') ''artifacts'' []))
   \<and> safeAddress (sampleParsedConfig (\<lambda>d. d) ''x'' [''a1''] (Some ''gas'') ''artifacts'' [])
       = safeAddress (sampleParsedConfig (\<lambda>d. d) ''xx'' [''b1''] (Some ''gas'') ''artifacts'' [])
   \<and> moduleAddress (sampleParsedConfig (\<lambda>d. d) ''x'' [''a1''] (Some ''gas'') ''artifacts'' [])
       = moduleAddress (sampleParsedConfig (\<lambda>d. d) ''xx'' [''b1''] (Some ''gas'') ''artifacts'' [])
   \<and> safeInitData (sampleParsedConfig (\<lambda>d. d) ''x'' [''a1''] (Some ''gas'') ''artifacts'' [])
       = safeInitData (sampleParsedConfig (\<lambda>d. d) ''xx'' [''b1''] (Some ''gas'') ''artifacts'' [])
   \<and> fst (propose
          (sampleEnvironment (\<lambda>d. d) [sampleNetwork ''x'' [''a1''], sampleNetwork ''xx'' [''b1'']])
          (sampleArgs False))
     = Throw InconsistentConfiguration"
  by (simp add: sample_defs propose_defs)

text \<open>
  C1, amended. With the API key set and a non-empty collection, \<open>propose\<close> throws the
  configuration error exactly when two chains of the proposal differ in \<open>newConfig\<close> (the
  organisation and project identifiers, the owners in their order, the threshold, the salt
  nonce), in the Safe address, in the module address or in the Safe init data; and when it
  throws it, the trace holds no call to \<open>storeCanonicalConfig\<close> and none to
  \<open>relayProposal\<close>. When all chains agree on all of these, the error is not raised.
\<close>

theorem propose_inconsistent_configuration:
  assumes "SPHINX_API_KEY env = Some key" and "key \<noteq> []"
    and "fst (buildParsedConfigArray env args) = Return built" and "\<not> isEmpty built"
    and "built_parsedConfigArray built = Some configs"
  shows "(fst (propose env args) = Throw InconsistentConfiguration)
           = (\<exists>p \<in> set configs. \<exists>q \<in> set configs.
                newConfig p \<noteq> newConfig q \<or> safeAddress p \<noteq> safeAddress q
                \<or> moduleAddress p \<noteq> moduleAddress q \<or> safeInitData p \<noteq> safeInitData q)
       \<and> (fst (propose env args) = Throw InconsistentConfiguration
            \<longrightarrow> filter isRemoteCall (snd (propose env args)) = [])"
proof -
  from fst_buildParsedConfigArray_artifacts [OF assms(3,4)] assms(5)
  obtain arts where arts: "built_configArtifacts built = Some arts" by auto
  note pb = propose_built [OF assms arts]
  have eq: "elementsEqual (map shouldBeEqual configs)
      = (\<not> (\<exists>p \<in> set configs. \<exists>q \<in> set configs.
                newConfig p \<noteq> newConfig q \<or> safeAddress p \<noteq> safeAddress q
                \<or> moduleAddress p \<noteq> moduleAddress q \<or> safeInitData p \<noteq> safeInitData q))"
    by (simp add: elementsEqual_iff shouldBeEqual_def) blast
  have a: "(fst (propose env args) = Throw InconsistentConfiguration)
      = (\<not> elementsEqual (map shouldBeEqual configs))"
    by (simp only: pb(1) fst_proposeParsed_inconsistent)
  have b: "fst (propose env args) = Throw InconsistentConfiguration
      \<Longrightarrow> filter isRemoteCall (snd (propose env args)) = []"
    using a by (simp add: pb(2) remote_proposeParsed_inconsistent)
  from a b eq show ?thesis by blast
qed

theorem propose_inconsistent_configuration_witness:
  "fst (propose
          (sampleEnvironment (\<lambda>d. ''demo'') [sampleNetwork ''x'' [''a1''], sampleNetwork ''xx'' [''b1'']])
          (sampleArgs False))
     \<noteq> Throw InconsistentConfiguration
   \<and> fst (buildParsedConfigArray
          (sampleEnvironment (\<lambda>d. ''demo'') [sampleNetwork ''x'' [''a1''], sampleNetwork ''xx'' [''b1'']])
          (sampleArgs False))
     = Return \<lparr>built_parsedConfigArray =
                 Some [sampleParsedConfig (\<lambda>d. ''demo'') ''x'' [''a1''] (Some ''gas'') ''artifacts'' [],
                       sampleParsedConfig (\<lambda>d. ''demo'') ''xx'' [''b1''] (Some ''gas'') ''artifacts'' []],
               built_configArtifacts = Some ''artifacts'', isEmpty = False\<rparr>"
proof -
  let ?env = "sampleEnvironment (\<lambda>d. ''demo'') [sampleNetwork ''x'' [''a1''], sampleNetwork ''xx'' [''b1'']]"
  let ?configs = "[sampleParsedConfig (\<lambda>d. ''demo'') ''x'' [''a1''] (Some ''gas'') ''artifacts'' [],
                   sampleParsedConfig (\<lambda>d. ''demo'') ''xx'' [''b1''] (Some ''gas'') ''artifacts'' []]"
  let ?built = "\<lparr>built_parsedConfigArray = Some ?configs,
                  built_configArtifacts = Some ''artifacts'', isEmpty = False\<rparr>"
  have h1: "SPHINX_API_KEY ?env = Some ''key''" by (simp add: sampleEnvironment_def)
  have h2: "''key'' \<noteq> []" by simp
  have h3: "fst (buildParsedConfigArray ?env (sampleArgs False)) = Return ?built"
    by (simp add: sample_defs propose_defs)
  have h4: "\<not> isEmpty ?built" by simp
  have h5: "built_parsedConfigArray ?built = Some ?configs" by simp
  have "\<not> (\<exists>p \<in> set ?configs. \<exists>q \<in> set ?configs.
                newConfig p \<noteq> newConfig q \<or> safeAddress p \<noteq> safeAddress q
                \<or> moduleAddress p \<noteq> moduleAddress q \<or> safeInitData p \<noteq> safeInitData q)"
    by (simp add: sampleParsedConfig_def)
  with propose_inconsistent_configuration [OF h1 h2 h3 h4 h5] h3 show ?thesis by simp
qed

text \<open>
  C3 as stated fails: for one chain with one collected action and a tree without a SETUP
  leaf, the leaf count recorded in \<open>chainStatus\<close> is 2, not 1 + 2.
\<close>

theorem propose_numLeaves_counterexample:
  "map_option (map actionInputs)
      (Option.bind (returned (propose (sampleEnvironment (\<lambda>d. ''demo'') [sampleNetwork ''x'' [''a1'']])
          (sampleArgs False))) parsedConfigArray)
     = Some [[''a1'']]
   \<and> map_option (map leafType \<circ> map leaf \<circ> leavesWithProofs)
      (Option.bind (returned (propose (sampleEnvironment (\<lambda>d. ''demo'') [sampleNetwork ''x'' [''a1'']])
          (sampleArgs False))) merkleTree)
     = Some [APPROVE, EXECUTE]
   \<and> map_option (\<lambda>request. chainStatus (tree request))
      (returnedRequest (propose (sampleEnvironment (\<lambda>d. ''demo'') [sampleNetwork ''x'' [''a1'']])
          (sampleArgs False)))
     = Some [\<lparr>cs_chainId = 1, numLeaves = 2\<rparr>]
   \<and> (2 :: nat) \<noteq> length [''a1''] + 2"
  by (simp add: returnedRequest_def returned_def sample_defs propose_defs)

text \<open>
  C3, amended. In the ProposalRequest that \<open>propose\<close> returns, \<open>chainStatus\<close> has one entry
  for every parsed config with at least one action input, in the order of the configs,
  and the \<open>numLeaves\<close> of a chain with N action inputs is N + 1, whatever leaves the tree
  holds.
\<close>

theorem propose_numLeaves:
  assumes "propose env args = (Return res, tr)"
    and "proposalRequest res = Some request"
    and "parsedConfigArray res = Some configs"
  shows "chainStatus (tree request) =
           map (\<lambda>config. \<lparr>cs_chainId = chainId config,
                           numLeaves = length (actionInputs config) + 1\<rparr>)
               (filter (\<lambda>config. actionInputs config \<noteq> []) configs)"
proof -
  from propose_Return_request [OF assms]
  obtain ds ss ids where
    "chainLoop (makeSphinxMerkleTree env configs) configs ([], [], []) = Inr (ds, ss, ids)"
    and "chainStatus (tree request) = ss" by blast
  then show ?thesis by (auto dest: chainLoop_acc)
qed

theorem propose_numLeaves_witness:
  "map_option (\<lambda>request. chainStatus (tree request))
      (returnedRequest (propose
         (sampleEnvironment (\<lambda>d. ''demo'')
            [sampleNetwork ''x'' [''a1'', ''a2'', ''a3''], sampleNetwork ''xx'' [''b1'']])
         (sampleArgs True)))
     = Some [\<lparr>cs_chainId = 1, numLeaves = 4\<rparr>, \<lparr>cs_chainId = 2, numLeaves = 2\<rparr>]"
proof -
  let ?env = "sampleEnvironment (\<lambda>d. ''demo'')
            [sampleNetwork ''x'' [''a1'', ''a2'', ''a3''], sampleNetwork ''xx'' [''b1'']]"
  obtain res tr where r: "propose ?env (sampleArgs True) = (Return res, tr)"
    by (simp add: sample_defs propose_defs)
  then have res: "res = the (returned (propose ?env (sampleArgs True)))"
    by (simp add: returned_def)
  have c: "parsedConfigArray (the (returned (propose ?env (sampleArgs True)))) =
      Some [sampleParsedConfig (\<lambda>d. ''demo'') ''x'' [''a1'', ''a2'', ''a3''] (Some ''gas'')
              ''artifacts'' [],
            sampleParsedConfig (\<lambda>d. ''demo'') ''xx'' [''b1''] (Some ''gas'') ''artifacts'' []]"
    by (simp add: returned_def sample_defs propose_defs)
  have "proposalRequest (the (returned (propose ?env (sampleArgs True)))) \<noteq> None"
    by (simp add: returned_def sample_defs propose_defs)
  then obtain request where q: "proposalRequest res = Some request"
    unfolding res by blast
  from propose_numLeaves [OF r q c [folded res]]
  have "chainStatus (tree request) = [\<lparr>cs_chainId = 1, numLeaves = 4\<rparr>, \<lparr>cs_chainId = 2, numLeaves = 2\<rparr>]"
    by (simp add: sampleParsedConfig_def)
  with r q show ?thesis by (simp add: returnedRequest_def returned_def)
qed

text \<open>
  C5. The \<open>chainIds\<close> and the \<open>chainStatus\<close> of a returned ProposalRequest list exactly the
  chains of the parsed configs that have at least one action input, in order: a chain
  without actions contributes no entry. When the API key is set and every network was
  collected with zero actions, \<open>propose\<close> returns the empty result: no ProposalRequest, no
  Merkle tree built, no call to the registry.
\<close>

theorem propose_drops_chains_without_actions:
  "(\<forall>res tr request configs.
       propose env args = (Return res, tr) \<longrightarrow> proposalRequest res = Some request \<longrightarrow>
       parsedConfigArray res = Some configs \<longrightarrow>
         chainIds request = map chainId (filter (\<lambda>config. actionInputs config \<noteq> []) configs)
       \<and> map cs_chainId (chainStatus (tree request))
           = map chainId (filter (\<lambda>config. actionInputs config \<noteq> []) configs))
   \<and> (\<forall>key. SPHINX_API_KEY env = Some key \<longrightarrow> key \<noteq> [] \<longrightarrow>
         list_all collectedNothing (networks env) \<longrightarrow>
           fst (propose env args) = Return emptyResult
         \<and> returnedRequest (propose env args) = None
         \<and> MakeMerkleTree \<notin> set (snd (propose env args))
         \<and> filter isRemoteCall (snd (propose env args)) = [])"
proof (intro conjI allI impI)
  fix res tr request configs
  assume a: "propose env args = (Return res, tr)" "proposalRequest res = Some request"
    "parsedConfigArray res = Some configs"
  from propose_Return_request [OF a]
  obtain ds ss ids where
    l: "chainLoop (makeSphinxMerkleTree env configs) configs ([], [], []) = Inr (ds, ss, ids)"
    and "chainStatus (tree request) = ss" "chainIds request = ids" by blast
  with chainLoop_acc [OF l]
  show "chainIds request = map chainId (filter (\<lambda>config. actionInputs config \<noteq> []) configs)"
    and "map cs_chainId (chainStatus (tree request))
           = map chainId (filter (\<lambda>config. actionInputs config \<noteq> []) configs)"
    by (simp_all add: comp_def)
next
  fix key
  assume k: "SPHINX_API_KEY env = Some key" "key \<noteq> []"
    "list_all collectedNothing (networks env)"
  note n = propose_nothing_collected [OF k, of args]
  show "fst (propose env args) = Return emptyResult" by (rule n(1))
  show "returnedRequest (propose env args) = None"
    by (simp add: returnedRequest_def returned_def n(1) emptyResult_def)
  show "MakeMerkleTree \<notin> set (snd (propose env args))" by (rule n(2))
  show "filter isRemoteCall (snd (propose env args)) = []" by (rule n(3))
qed

theorem propose_drops_chains_without_actions_witness:
  "map_option (map (\<lambda>config. (chainId config, actionInputs config)))
      (Option.bind (returned (propose
         (sampleEnvironment (\<lambda>d. ''demo'') [sampleNetwork ''x'' [], sampleNetwork ''xx'' [''b1'']])
         (sampleArgs True))) parsedConfigArray)
     = Some [(1, []), (2, [''b1''])]
   \<and> map_option chainIds (returnedRequest (propose
         (sampleEnvironment (\<lambda>d. ''demo'') [sampleNetwork ''x'' [], sampleNetwork ''xx'' [''b1'']])
         (sampleArgs True)))
     = Some [2]
   \<and> map_option (\<lambda>request. map cs_chainId (chainStatus (tree request))) (returnedRequest (propose
         (sampleEnvironment (\<lambda>d. ''demo'') [sampleNetwork ''x'' [], sampleNetwork ''xx'' [''b1'']])
         (sampleArgs True)))
     = Some [2]
   \<and> list_all collectedNothing [sampleNetwork ''x'' [], sampleNetwork ''xx'' []]
   \<and> propose (sampleEnvironment (\<lambda>d. ''demo'') [sampleNetwork ''x'' [], sampleNetwork ''xx'' []])
         (sampleArgs True)
     = (Return emptyResult, [Compile True False, ForgeScript ''http://rpc'', ForgeScript ''http://rpc''])"
proof -
  let ?env = "sampleEnvironment (\<lambda>d. ''demo'') [sampleNetwork ''x'' [], sampleNetwork ''xx'' [''b1'']]"
  let ?none = "sampleEnvironment (\<lambda>d. ''demo'') [sampleNetwork ''x'' [], sampleNetwork ''xx'' []]"
  let ?configs = "[sampleParsedConfig (\<lambda>d. ''demo'') ''x'' [] (Some ''gas'') ''artifacts'' [],
                   sampleParsedConfig (\<lambda>d. ''demo'') ''xx'' [''b1''] (Some ''gas'') ''artifacts'' []]"
  obtain res tr where r: "propose ?env (sampleArgs True) = (Return res, tr)"
    by (simp add: sample_defs propose_defs)
  then have res: "res = the (returned (propose ?env (sampleArgs True)))"
    by (simp add: returned_def)
  have "parsedConfigArray (the (returned (propose ?env (sampleArgs True)))) = Some ?configs"
    by (simp add: returned_def sample_defs propose_defs)
  then have c: "parsedConfigArray res = Some ?configs" by (simp only: res)
  have "proposalRequest (the (returned (propose ?env (sampleArgs True)))) \<noteq> None"
    by (simp add: returned_def sample_defs propose_defs)
  then obtain request where q: "proposalRequest res = Some request"
    unfolding res by blast
  from propose_drops_chains_without_actions [of ?env "sampleArgs True"] r q c
  have "chainIds request = map chainId (filter (\<lambda>config. actionInputs config \<noteq> []) ?configs)
      \<and> map cs_chainId (chainStatus (tree request))
           = map chainId (filter (\<lambda>config. actionInputs config \<noteq> []) ?configs)"
    by blast
  then have ids: "chainIds request = [2]" "map cs_chainId (chainStatus (tree request)) = [2]"
    by (simp_all add: sampleParsedConfig_def)
  have part1: "map_option (map (\<lambda>config. (chainId config, actionInputs config)))
      (Option.bind (returned (propose ?env (sampleArgs True))) parsedConfigArray)
        = Some [(1, []), (2, [''b1''])]"
    using r c by (simp add: returned_def sampleParsedConfig_def)
  have part2: "map_option chainIds (returnedRequest (propose ?env (sampleArgs True))) = Some [2]"
    "map_option (\<lambda>request. map cs_chainId (chainStatus (tree request)))
       (returnedRequest (propose ?env (sampleArgs True))) = Some [2]"
    using r q ids by (simp_all add: returnedRequest_def returned_def)
  have k: "SPHINX_API_KEY ?none = Some ''key''" "''key'' \<noteq> []"
    by (simp_all add: sampleEnvironment_def)
  have n: "list_all collectedNothing [sampleNetwork ''x'' [], sampleNetwork ''xx'' []]"
    by (simp add: sampleNetwork_def)
  then have n': "list_all collectedNothing (networks ?none)"
    by (simp add: sampleEnvironment_def)
  from propose_drops_chains_without_actions [of ?none "sampleArgs True"] k n'
  have "fst (propose ?none (sampleArgs True)) = Return emptyResult" by blast
  moreover have "snd (propose ?none (sampleArgs True))
      = [Compile True False, ForgeScript ''http://rpc'', ForgeScript ''http://rpc'']"
    by (simp add: sample_defs propose_defs)
  ultimately have part3: "propose ?none (sampleArgs True)
     = (Return emptyResult, [Compile True False, ForgeScript ''http://rpc'', ForgeScript ''http://rpc''])"
    by (simp add: prod_eq_iff)
  from part1 part2 n part3 show ?thesis by blast
qed

text \<open>
  C8. For every environment and all arguments, the outcome of the dry run is the outcome
  of the run without the flag with the \<open>compilerConfigId\<close> of the returned ProposalRequest
  reset to undefined: every other field of the result is the same, and so is an exit or a
  thrown error. The trace of the dry run holds no call to \<open>storeCanonicalConfig\<close> and none
  to \<open>relayProposal\<close>, and the \<open>compilerConfigId\<close> of a request it returns is undefined.
\<close>

theorem propose_dry_run:
  "fst (propose env (args\<lparr>isDryRun := True\<rparr>))
     = map_outcome clearCompilerConfigId (fst (propose env (args\<lparr>isDryRun := False\<rparr>)))
   \<and> filter isRemoteCall (snd (propose env (args\<lparr>isDryRun := True\<rparr>))) = []
   \<and> Option.bind (returnedRequest (propose env (args\<lparr>isDryRun := True\<rparr>))) compilerConfigId
       = None"
proof -
  have a: "fst (propose env (args\<lparr>isDryRun := True\<rparr>))
     = map_outcome clearCompilerConfigId (fst (propose env (args\<lparr>isDryRun := False\<rparr>)))"
    by (rule propose_dry)
  have b: "filter isRemoteCall (snd (propose env (args\<lparr>isDryRun := True\<rparr>))) = []"
    by (rule remote_propose_dry) simp
  have c: "Option.bind (returnedRequest (propose env (args\<lparr>isDryRun := True\<rparr>))) compilerConfigId
       = None"
  proof (cases "fst (propose env (args\<lparr>isDryRun := False\<rparr>))")
    case (Return res)
    then show ?thesis
      unfolding returnedRequest_def returned_def a
      by (cases "proposalRequest res") (simp_all add: clearCompilerConfigId_def)
  qed (simp_all add: returnedRequest_def returned_def a)
  from a b c show ?thesis by blast
qed

theorem propose_dry_run_witness:
  "map_option compilerConfigId (returnedRequest
      (propose (sampleEnvironment (\<lambda>d. ''demo'') [sampleNetwork ''x'' [''a1'']]) (sampleArgs False)))
     = Some (Some ''config-id'')
   \<and> map_option compilerConfigId (returnedRequest
      (propose (sampleEnvironment (\<lambda>d. ''demo'') [sampleNetwork ''x'' [''a1'']]) (sampleArgs True)))
     = Some None
   \<and> fst (propose (sampleEnvironment (\<lambda>d. ''demo'') [sampleNetwork ''x'' [''a1'']]) (sampleArgs True))
     = map_outcome clearCompilerConfigId
         (fst (propose (sampleEnvironment (\<lambda>d. ''demo'') [sampleNetwork ''x'' [''a1'']])
            (sampleArgs False)))
   \<and> filter isRemoteCall
        (snd (propose (sampleEnvironment (\<lambda>d. ''demo'') [sampleNetwork ''x'' [''a1'']])
           (sampleArgs True))) = []"
proof -
  let ?env = "sampleEnvironment (\<lambda>d. ''demo'') [sampleNetwork ''x'' [''a1'']]"
  have t: "(sampleArgs False)\<lparr>isDryRun := True\<rparr> = sampleArgs True"
    and f: "(sampleArgs False)\<lparr>isDryRun := False\<rparr> = sampleArgs False"
    by (simp_all add: sampleArgs_def)
  have w: "map_option compilerConfigId (returnedRequest (propose ?env (sampleArgs False)))
     = Some (Some ''config-id'')"
    by (simp add: returnedRequest_def returned_def sample_defs propose_defs)
  have d: "map_option compilerConfigId (returnedRequest (propose ?env (sampleArgs True)))
     = Some None"
    by (simp add: returnedRequest_def returned_def sample_defs propose_defs)
  from propose_dry_run [of ?env "sampleArgs False"] w d show ?thesis
    unfolding t f by simp
qed

text \<open>
  C9 as stated fails: the \<open>deploymentId\<close> is the Merkle root and nothing else. For one tree,
  two parsed configs of the same chain with different action inputs (hence different
  compiled configurations) get the same \<open>deploymentId\<close>, the root.
\<close>

theorem getProjectDeploymentForChain_root_counterexample:
  "actionInputs (sampleParsedConfig (\<lambda>d. ''demo'') ''x'' [''a1''] None ''artifacts'' [])
     \<noteq> actionInputs (sampleParsedConfig (\<lambda>d. ''demo'') ''x'' [''b1'', ''b2''] None ''artifacts'' [])
   \<and> getProjectDeploymentForChain
        (sampleTree [sampleParsedConfig (\<lambda>d. ''demo'') ''x'' [''a1''] None ''artifacts'' []])
        (sampleParsedConfig (\<lambda>d. ''demo'') ''x'' [''a1''] None ''artifacts'' [])
       = Inr (Some \<lparr>pd_chainId = 1, deploymentId = ''0xroot'', pd_name = ''demo'',
                    pd_isExecuting = False\<rparr>)
   \<and> getProjectDeploymentForChain
        (sampleTree [sampleParsedConfig (\<lambda>d. ''demo'') ''x'' [''a1''] None ''artifacts'' []])
        (sampleParsedConfig (\<lambda>d. ''demo'') ''x'' [''b1'', ''b2''] None ''artifacts'' [])
       = Inr (Some \<lparr>pd_chainId = 1, deploymentId = ''0xroot'', pd_name = ''demo'',
                    pd_isExecuting = False\<rparr>)
   \<and> root (sampleTree [sampleParsedConfig (\<lambda>d. ''demo'') ''x'' [''a1''] None ''artifacts'' []])
       = ''0xroot''"
  by (simp add: sample_defs getProjectDeploymentForChain_def)

text \<open>
  C9, amended. Whenever \<open>getProjectDeploymentForChain\<close> yields a ProjectDeployment, its
  \<open>deploymentId\<close> is the root of the Merkle tree; a chain with exactly one APPROVE leaf
  yields that ProjectDeployment, a chain with no APPROVE leaf yields none, and a chain
  with more than one APPROVE leaf raises an error.
\<close>

theorem getProjectDeploymentForChain_root:
  "(\<forall>deployment. getProjectDeploymentForChain mtree config = Inr (Some deployment) \<longrightarrow>
       deploymentId deployment = root mtree \<and> pd_chainId deployment = chainId config)
   \<and> (length (filter (\<lambda>l. leafType (leaf l) = APPROVE \<and> leaf_chainId (leaf l) = chainId config)
                 (leavesWithProofs mtree)) = 1 \<longrightarrow>
        getProjectDeploymentForChain mtree config
          = Inr (Some \<lparr>pd_chainId = chainId config, deploymentId = root mtree,
                       pd_name = projectName (newConfig config),
                       pd_isExecuting = isExecuting (initialState config)\<rparr>))
   \<and> (filter (\<lambda>l. leafType (leaf l) = APPROVE \<and> leaf_chainId (leaf l) = chainId config)
                 (leavesWithProofs mtree) = [] \<longrightarrow>
        getProjectDeploymentForChain mtree config = Inr None)
   \<and> (length (filter (\<lambda>l. leafType (leaf l) = APPROVE \<and> leaf_chainId (leaf l) = chainId config)
                 (leavesWithProofs mtree)) > 1 \<longrightarrow>
        getProjectDeploymentForChain mtree config = Inl (MultipleApprovalLeaves (chainId config)))"
  by (auto simp: getProjectDeploymentForChain_def Let_def split: if_splits)

theorem getProjectDeploymentForChain_root_witness:
  "getProjectDeploymentForChain
      (sampleTree [sampleParsedConfig (\<lambda>d. ''demo'') ''x'' [''a1''] None ''artifacts'' []])
      (sampleParsedConfig (\<lambda>d. ''demo'') ''x'' [''a1''] None ''artifacts'' [])
     = Inr (Some \<lparr>pd_chainId = 1, deploymentId = ''0xroot'', pd_name = ''demo'',
                  pd_isExecuting = False\<rparr>)
   \<and> getProjectDeploymentForChain
      (sampleTree [sampleParsedConfig (\<lambda>d. ''demo'') ''x'' [''a1''] None ''artifacts'' []])
      (sampleParsedConfig (\<lambda>d. ''demo'') ''xx'' [''a1''] None ''artifacts'' [])
     = Inr None"
proof -
  let ?c = "sampleParsedConfig (\<lambda>d. ''demo'') ''x'' [''a1''] None ''artifacts'' []"
  let ?d = "sampleParsedConfig (\<lambda>d. ''demo'') ''xx'' [''a1''] None ''artifacts'' []"
  have one: "length (filter (\<lambda>l. leafType (leaf l) = APPROVE \<and> leaf_chainId (leaf l) = chainId ?c)
                 (leavesWithProofs (sampleTree [?c]))) = 1"
    by (simp add: sample_defs)
  have none: "filter (\<lambda>l. leafType (leaf l) = APPROVE \<and> leaf_chainId (leaf l) = chainId ?d)
                 (leavesWithProofs (sampleTree [?c])) = []"
    by (simp add: sample_defs)
  from getProjectDeploymentForChain_root [of "sampleTree [?c]" ?c] one
  have a: "getProjectDeploymentForChain (sampleTree [?c]) ?c
          = Inr (Some \<lparr>pd_chainId = chainId ?c, deploymentId = root (sampleTree [?c]),
                       pd_name = projectName (newConfig ?c),
                       pd_isExecuting = isExecuting (initialState ?c)\<rparr>)" by blast
  from getProjectDeploymentForChain_root [of "sampleTree [?c]" ?d] none
  have b: "getProjectDeploymentForChain (sampleTree [?c]) ?d = Inr None" by blast
  from a b show ?thesis by (simp add: sample_defs)
qed

text \<open>
  C10. When \<open>SPHINX_API_KEY\<close> is unset (or empty), \<open>propose\<close> ends the process with exit
  code 1, and the only event of the run is the error message: nothing was compiled,
  collected or built. The arguments are arbitrary, so this holds for a dry run as well.
\<close>

theorem propose_requires_api_key:
  assumes "SPHINX_API_KEY env = None \<or> SPHINX_API_KEY env = Some []"
  shows "propose env args = (Exit 1, [ConsoleError apiKeyMessage])
       \<and> propose env (args\<lparr>isDryRun := True\<rparr>) = (Exit 1, [ConsoleError apiKeyMessage])"
  using assms by (auto simp: propose_def)

theorem propose_requires_api_key_witness:
  "SPHINX_API_KEY ((sampleEnvironment (\<lambda>d. ''demo'') [sampleNetwork ''x'' [''a1'']])
      \<lparr>SPHINX_API_KEY := None\<rparr>) = None
   \<and> propose ((sampleEnvironment (\<lambda>d. ''demo'') [sampleNetwork ''x'' [''a1'']])
        \<lparr>SPHINX_API_KEY := None\<rparr>) (sampleArgs True)
       = (Exit 1, [ConsoleError apiKeyMessage])"
proof -
  let ?env = "(sampleEnvironment (\<lambda>d. ''demo'') [sampleNetwork ''x'' [''a1'']])
      \<lparr>SPHINX_API_KEY := None\<rparr>"
  have h: "SPHINX_API_KEY ?env = None \<or> SPHINX_API_KEY ?env = Some []" by simp
  show ?thesis
    using propose_requires_api_key [OF h, of "sampleArgs True"] by simp
qed

subsection \<open>Claims about the authorization steps\<close>

text \<open>
  C4. The leaf builder and the Auth contract are modelled from the specification; the
  index, the leaf lookups and the expected values are those of the test helper. For every
  chain of the tree (chain identifiers pairwise distinct, at least one action), the tree
  contains a SETUP leaf for the chain exactly when setup is required, the helper's
  \<open>proposalLeafIndex\<close> is 1 with a SETUP leaf and 0 without, the leaf found at that index is
  the chain's PROPOSE leaf and no other PROPOSE leaf of the chain exists; before the
  PROPOSE submission the status is the one the helper expects (SETUP with a SETUP leaf,
  EMPTY without), and after it the chain's AuthState has the status PROPOSED,
  \<open>leafsExecuted\<close> equal to the helper's expected value, 2 with a SETUP leaf and 1 without,
  and \<open>numLeafs\<close> equal to the number of leaves of the chain in the tree.
\<close>

theorem propose_leaf_position:
  assumes d: "distinct (map ci_chainId inputs)" and c: "c \<in> set inputs"
    and a: "ci_actions c \<noteq> []"
  shows "containsSetupLeaf (allLeaves inputs) (ci_chainId c) = setupRequired c
       \<and> proposalLeafIndex (allLeaves inputs) (ci_chainId c) = (if setupRequired c then 1 else 0)
       \<and> findProposalRequestLeaf (allLeaves inputs)
            (proposalLeafIndex (allLeaves inputs) (ci_chainId c)) (ci_chainId c)
          = Some \<lparr>leaf_chainId = ci_chainId c,
                  leaf_index = proposalLeafIndex (allLeaves inputs) (ci_chainId c),
                  leafType = PROPOSE, leaf_data = []\<rparr>
       \<and> (\<forall>l \<in> set (allLeaves inputs). leaf_chainId l = ci_chainId c \<and> leafType l = PROPOSE \<longrightarrow>
            leaf_index l = proposalLeafIndex (allLeaves inputs) (ci_chainId c))
       \<and> map_sum id status (submitSetup (allLeaves inputs) (ci_chainId c))
          = Inr (expectedInitialStatus (allLeaves inputs) (ci_chainId c))
       \<and> submitThroughPropose (allLeaves inputs) (ci_chainId c) =
           Inr \<lparr>status = AuthStatus_PROPOSED,
                leafsExecuted = expectedLeafsExecuted (allLeaves inputs) (ci_chainId c),
                numLeafs = expectedNumLeafs (allLeaves inputs) (ci_chainId c)\<rparr>
       \<and> expectedLeafsExecuted (allLeaves inputs) (ci_chainId c)
          = (if containsSetupLeaf (allLeaves inputs) (ci_chainId c) then 2 else 1)"
proof -
  let ?ls = "allLeaves inputs" and ?cid = "ci_chainId c"
  have filt: "filter (\<lambda>l. leaf_chainId l = ?cid) ?ls = leavesOf c"
    using d c by (simp add: allLeaves_def filter_allLeaves)
  have hs: "containsSetupLeaf ?ls ?cid = setupRequired c"
    using a by (cases "setupRequired c")
      (simp_all add: containsSetupLeaf_def list_ex_conj_filter filt leavesOf_setup
        leavesOf_no_setup no_setup_in_executes)
  have idx: "proposalLeafIndex ?ls ?cid = (if setupRequired c then 1 else 0)"
    by (simp add: proposalLeafIndex_def hs)
  have findp: "findProposalRequestLeaf ?ls (proposalLeafIndex ?ls ?cid) ?cid
      = Some \<lparr>leaf_chainId = ?cid, leaf_index = proposalLeafIndex ?ls ?cid,
              leafType = PROPOSE, leaf_data = []\<rparr>"
    using a by (cases "setupRequired c")
      (simp_all add: findProposalRequestLeaf_def find_conj_filter filt idx leavesOf_setup
        leavesOf_no_setup)
  have finds: "setupRequired c \<Longrightarrow> findProposalRequestLeaf ?ls 0 ?cid
      = Some \<lparr>leaf_chainId = ?cid, leaf_index = 0, leafType = SETUP, leaf_data = []\<rparr>"
    using a by (simp add: findProposalRequestLeaf_def find_conj_filter filt leavesOf_setup)
  have uniq: "\<forall>l \<in> set ?ls. leaf_chainId l = ?cid \<and> leafType l = PROPOSE \<longrightarrow>
      leaf_index l = proposalLeafIndex ?ls ?cid"
  proof (intro ballI impI)
    fix l assume "l \<in> set ?ls" and h: "leaf_chainId l = ?cid \<and> leafType l = PROPOSE"
    then have "l \<in> set (filter (\<lambda>l. leaf_chainId l = ?cid) ?ls)" by simp
    then have "l \<in> set (leavesOf c)" by (simp only: filt)
    with h a show "leaf_index l = proposalLeafIndex ?ls ?cid"
      by (simp add: idx propose_leaf_index_of)
  qed
  have before: "submitSetup ?ls ?cid =
      Inr \<lparr>status = expectedInitialStatus ?ls ?cid,
           leafsExecuted = (if setupRequired c then 1 else 0), numLeafs = 0\<rparr>"
    using finds
    by (cases "setupRequired c")
       (simp_all add: submitSetup_def hs submitLeaf_def emptyAuthState_def
         expectedInitialStatus_def)
  have run: "submitThroughPropose ?ls ?cid =
      Inr \<lparr>status = AuthStatus_PROPOSED,
           leafsExecuted = expectedLeafsExecuted ?ls ?cid,
           numLeafs = expectedNumLeafs ?ls ?cid\<rparr>"
    using findp
    by (cases "setupRequired c")
       (simp_all add: submitThroughPropose_def before idx submitLeaf_def hs
         expectedInitialStatus_def expectedLeafsExecuted_def expectedNumLeafs_def)
  have st: "map_sum id status (submitSetup ?ls ?cid) = Inr (expectedInitialStatus ?ls ?cid)"
    by (simp add: before)
  have ex: "expectedLeafsExecuted ?ls ?cid = (if containsSetupLeaf ?ls ?cid then 2 else 1)"
    by (simp add: expectedLeafsExecuted_def)
  from hs idx findp uniq st run ex show ?thesis by blast
qed

theorem propose_leaf_position_witness:
  "distinct (map ci_chainId sampleChains)
   \<and> \<lparr>ci_chainId = 1, setupRequired = True, ci_actions = [''a1'', ''a2'']\<rparr> \<in> set sampleChains
   \<and> proposalLeafIndex (allLeaves sampleChains) 1 = 1
   \<and> findProposalRequestLeaf (allLeaves sampleChains) 1 1
        = Some \<lparr>leaf_chainId = 1, leaf_index = 1, leafType = PROPOSE, leaf_data = []\<rparr>
   \<and> submitThroughPropose (allLeaves sampleChains) 1 =
        Inr \<lparr>status = AuthStatus_PROPOSED, leafsExecuted = 2, numLeafs = 5\<rparr>"
proof -
  let ?c = "\<lparr>ci_chainId = 1, setupRequired = True, ci_actions = [''a1'', ''a2'']\<rparr>"
  have h1: "distinct (map ci_chainId sampleChains)" by (simp add: sampleChains_def)
  have h2: "?c \<in> set sampleChains" by (simp add: sampleChains_def)
  have h3: "ci_actions ?c \<noteq> []" by simp
  have n: "expectedNumLeafs (allLeaves sampleChains) 1 = 5"
    by (simp add: expectedNumLeafs_def allLeaves_def leavesOf_def buildLeaves_def
        sampleChains_def)
  have e: "expectedLeafsExecuted (allLeaves sampleChains) 1 = 2"
    by (simp add: expectedLeafsExecuted_def containsSetupLeaf_def allLeaves_def leavesOf_def
        buildLeaves_def sampleChains_def)
  show ?thesis
    using propose_leaf_position [OF h1 h2 h3] h1 h2 n e by auto
qed

end
